theory Spec2Isabelle
  imports Main "HOL-Library.Word" "HOL-Library.State_Monad"
begin

section \<open>Staffing coverage of a service post\<close>

text \<open>
  The module under study exports one constant and two functions and keeps one helper
  private:
  \<^verbatim>\<open>
  export const MIN_EFETIVO_ESCALA_12X36 = 4;
  interface PostoEfetivoInfo { escala?: string | null; efetivo_planejado?: number | null; }
  const isEscala12x36 = (escala?: string | null) => {
    if (!escala) return false;
    return escala.trim().toLowerCase() === "12x36";
  };
  export const getEfetivoPlanejadoAjustado = (posto: PostoEfetivoInfo): number => {
    const baseEfetivo = posto.efetivo_planejado && posto.efetivo_planejado > 0
                          ? posto.efetivo_planejado : 1;
    if (isEscala12x36(posto.escala)) {
      return Math.max(baseEfetivo, MIN_EFETIVO_ESCALA_12X36);
    }
    return baseEfetivo;
  };
  export const getCoberturaParaPosto = (colaboradoresAtivos: number, posto: PostoEfetivoInfo) => {
    const efetivoNecessario = getEfetivoPlanejadoAjustado(posto);
    const efetivoConsiderado = Math.min(colaboradoresAtivos, efetivoNecessario);
    return { efetivoNecessario, efetivoConsiderado,
             estaCoberto: colaboradoresAtivos >= efetivoNecessario };
  };
  \<close>
  The specification calls them \<open>isTwelveBySixThirtySix\<close> (\<open>isEscala12x36\<close>),
  \<open>adjustedPlannedHeadcount\<close> (\<open>getEfetivoPlanejadoAjustado\<close>) and
  \<open>evaluateCoverage\<close> (\<open>getCoberturaParaPosto\<close>); \<open>shiftType\<close> is the field
  \<open>escala\<close>, \<open>plannedHeadcount\<close> is \<open>efetivo_planejado\<close>, and the result fields
  \<open>required\<close>, \<open>considered\<close>, \<open>isCovered\<close> are \<open>efetivoNecessario\<close>,
  \<open>efetivoConsiderado\<close>, \<open>estaCoberto\<close>.
\<close>

subsection \<open>Data\<close>

text \<open>
  A field declared \<open>f?: T | null\<close> holds \<open>undefined\<close> (also when the property is
  missing), \<open>null\<close>, or a value of \<open>T\<close>.
\<close>

datatype 'a nullable = Undefined | Null | Val 'a

text \<open>
  Head counts are integers, as the data model of the specification declares them. The
  module only compares and selects numbers (\<open>>\<close>, \<open>>=\<close>, \<open>Math.max\<close>,
  \<open>Math.min\<close>, truthiness), never computes with them, so on integer-valued numbers
  \<open>int\<close> is exact.

  A string of the language is a finite sequence of 16-bit code units, read as UTF-16
  where code points matter; a surrogate that has no partner is a legal element. A code
  point is a natural number up to \<open>0x10FFFF\<close>.
\<close>

type_synonym codeUnit = "16 word"

type_synonym jsString = "codeUnit list"

type_synonym codePoint = nat

text \<open>String literals of the source text, written here with the characters of \<open>char\<close>.\<close>

definition jsLit :: "string \<Rightarrow> jsString" where
  "jsLit s = map (\<lambda>c. of_nat (of_char c)) s"

record PostoEfetivoInfo =
  escala :: "jsString nullable"
  efetivo_planejado :: "int nullable"

record Cobertura =
  efetivoNecessario :: int
  efetivoConsiderado :: int
  estaCoberto :: bool

text \<open>The only exception the language can raise in this module: a method call on
  \<open>undefined\<close> or \<open>null\<close>.\<close>

datatype error = TypeError

definition MIN_EFETIVO_ESCALA_12X36 :: int where
  "MIN_EFETIVO_ESCALA_12X36 = 4"

subsection \<open>The language primitives the module calls\<close>

subsubsection \<open>\<open>String.prototype.trim\<close>\<close>

text \<open>
  \<open>trim\<close> removes white space from both ends, white space being the union of the
  productions \<open>WhiteSpace\<close> and \<open>LineTerminator\<close> of the language:
  TAB, VT, FF, ZERO WIDTH NO-BREAK SPACE (\<open>U+FEFF\<close>) and the code points of general
  category \<open>Zs\<close> (\<open>U+0020\<close>, \<open>U+00A0\<close>, \<open>U+1680\<close>, \<open>U+2000\<close> to \<open>U+200A\<close>,
  \<open>U+202F\<close>, \<open>U+205F\<close>, \<open>U+3000\<close>); LF, CR, \<open>U+2028\<close> and \<open>U+2029\<close>. All of
  them are single code units.
\<close>

definition isWhiteSpace :: "codeUnit \<Rightarrow> bool" where
  "isWhiteSpace u =
     (unat u \<in> {0x09, 0x0B, 0x0C, 0xFEFF,
                0x20, 0xA0, 0x1680, 0x202F, 0x205F, 0x3000,
                0x0A, 0x0D, 0x2028, 0x2029}
      \<or> (0x2000 \<le> unat u \<and> unat u \<le> 0x200A))"

definition trim :: "jsString \<Rightarrow> jsString" where
  "trim s = rev (dropWhile isWhiteSpace (rev (dropWhile isWhiteSpace s)))"

subsubsection \<open>\<open>String.prototype.toLowerCase\<close>\<close>

text \<open>
  \<open>toLowerCase\<close> reads the string as code points (\<open>StringToCodePoints\<close>: a leading
  surrogate followed by a trailing one is one code point, any other code unit is the
  code point of its value), maps the code points to lower case by the locale-insensitive
  mappings of the Unicode Character Database, and writes the result back as code units.
\<close>

definition isLeadingSurrogate :: "codeUnit \<Rightarrow> bool" where
  "isLeadingSurrogate u = (0xD800 \<le> unat u \<and> unat u \<le> 0xDBFF)"

definition isTrailingSurrogate :: "codeUnit \<Rightarrow> bool" where
  "isTrailingSurrogate u = (0xDC00 \<le> unat u \<and> unat u \<le> 0xDFFF)"

fun stringToCodePoints :: "jsString \<Rightarrow> codePoint list" where
  "stringToCodePoints [] = []"
| "stringToCodePoints [u] = [unat u]"
| "stringToCodePoints (u # v # s) =
     (if isLeadingSurrogate u \<and> isTrailingSurrogate v
      then (0x10000 + (unat u - 0xD800) * 0x400 + (unat v - 0xDC00)) # stringToCodePoints s
      else unat u # stringToCodePoints (v # s))"

definition codePointToUnits :: "codePoint \<Rightarrow> jsString" where
  "codePointToUnits cp =
     (if cp < 0x10000 then [of_nat cp]
      else [of_nat (0xD800 + (cp - 0x10000) div 0x400),
            of_nat (0xDC00 + (cp - 0x10000) mod 0x400)])"

text \<open>
  The one-to-one lower-case mappings, from version 15.0 of the database. An entry
  \<open>(lo, hi, step, target)\<close> maps the code points \<open>lo\<close>, \<open>lo + step\<close>, \<open>\<dots>\<close> up to
  \<open>hi\<close> to \<open>target\<close>, \<open>target + step\<close>, \<open>\<dots>\<close>; a code point in no entry is its own
  lower case.
\<close>

definition lowercaseRuns :: "(nat \<times> nat \<times> nat \<times> nat) list" where
  "lowercaseRuns =
    [
     (0x41, 0x5A, 1, 0x61), (0xC0, 0xD6, 1, 0xE0), (0xD8, 0xDE, 1, 0xF8),
     (0x100, 0x12E, 2, 0x101), (0x132, 0x136, 2, 0x133), (0x139, 0x147, 2, 0x13A),
     (0x14A, 0x176, 2, 0x14B), (0x178, 0x178, 1, 0xFF), (0x179, 0x17D, 2, 0x17A),
     (0x181, 0x181, 1, 0x253), (0x182, 0x184, 2, 0x183), (0x186, 0x186, 1, 0x254),
     (0x187, 0x187, 1, 0x188), (0x189, 0x18A, 1, 0x256), (0x18B, 0x18B, 1, 0x18C),
     (0x18E, 0x18E, 1, 0x1DD), (0x18F, 0x18F, 1, 0x259), (0x190, 0x190, 1, 0x25B),
     (0x191, 0x191, 1, 0x192), (0x193, 0x193, 1, 0x260), (0x194, 0x194, 1, 0x263),
     (0x196, 0x196, 1, 0x269), (0x197, 0x197, 1, 0x268), (0x198, 0x198, 1, 0x199),
     (0x19C, 0x19C, 1, 0x26F), (0x19D, 0x19D, 1, 0x272), (0x19F, 0x19F, 1, 0x275),
     (0x1A0, 0x1A4, 2, 0x1A1), (0x1A6, 0x1A6, 1, 0x280), (0x1A7, 0x1A7, 1, 0x1A8),
     (0x1A9, 0x1A9, 1, 0x283), (0x1AC, 0x1AC, 1, 0x1AD), (0x1AE, 0x1AE, 1, 0x288),
     (0x1AF, 0x1AF, 1, 0x1B0), (0x1B1, 0x1B2, 1, 0x28A), (0x1B3, 0x1B5, 2, 0x1B4),
     (0x1B7, 0x1B7, 1, 0x292), (0x1B8, 0x1B8, 1, 0x1B9), (0x1BC, 0x1BC, 1, 0x1BD),
     (0x1C4, 0x1C4, 1, 0x1C6), (0x1C5, 0x1C5, 1, 0x1C6), (0x1C7, 0x1C7, 1, 0x1C9),
     (0x1C8, 0x1C8, 1, 0x1C9), (0x1CA, 0x1CA, 1, 0x1CC), (0x1CB, 0x1DB, 2, 0x1CC),
     (0x1DE, 0x1EE, 2, 0x1DF), (0x1F1, 0x1F1, 1, 0x1F3), (0x1F2, 0x1F4, 2, 0x1F3),
     (0x1F6, 0x1F6, 1, 0x195), (0x1F7, 0x1F7, 1, 0x1BF), (0x1F8, 0x21E, 2, 0x1F9),
     (0x220, 0x220, 1, 0x19E), (0x222, 0x232, 2, 0x223), (0x23A, 0x23A, 1, 0x2C65),
     (0x23B, 0x23B, 1, 0x23C), (0x23D, 0x23D, 1, 0x19A), (0x23E, 0x23E, 1, 0x2C66),
     (0x241, 0x241, 1, 0x242), (0x243, 0x243, 1, 0x180), (0x244, 0x244, 1, 0x289),
     (0x245, 0x245, 1, 0x28C), (0x246, 0x24E, 2, 0x247), (0x370, 0x372, 2, 0x371),
     (0x376, 0x376, 1, 0x377), (0x37F, 0x37F, 1, 0x3F3), (0x386, 0x386, 1, 0x3AC),
     (0x388, 0x38A, 1, 0x3AD), (0x38C, 0x38C, 1, 0x3CC), (0x38E, 0x38F, 1, 0x3CD),
     (0x391, 0x3A1, 1, 0x3B1), (0x3A3, 0x3AB, 1, 0x3C3), (0x3CF, 0x3CF, 1, 0x3D7),
     (0x3D8, 0x3EE, 2, 0x3D9), (0x3F4, 0x3F4, 1, 0x3B8), (0x3F7, 0x3F7, 1, 0x3F8),
     (0x3F9, 0x3F9, 1, 0x3F2), (0x3FA, 0x3FA, 1, 0x3FB), (0x3FD, 0x3FF, 1, 0x37B),
     (0x400, 0x40F, 1, 0x450), (0x410, 0x42F, 1, 0x430), (0x460, 0x480, 2, 0x461),
     (0x48A, 0x4BE, 2, 0x48B), (0x4C0, 0x4C0, 1, 0x4CF), (0x4C1, 0x4CD, 2, 0x4C2),
     (0x4D0, 0x52E, 2, 0x4D1), (0x531, 0x556, 1, 0x561), (0x10A0, 0x10C5, 1, 0x2D00),
     (0x10C7, 0x10C7, 1, 0x2D27), (0x10CD, 0x10CD, 1, 0x2D2D), (0x13A0, 0x13EF, 1, 0xAB70),
     (0x13F0, 0x13F5, 1, 0x13F8), (0x1C90, 0x1CBA, 1, 0x10D0), (0x1CBD, 0x1CBF, 1, 0x10FD),
     (0x1E00, 0x1E94, 2, 0x1E01), (0x1E9E, 0x1E9E, 1, 0xDF), (0x1EA0, 0x1EFE, 2, 0x1EA1),
     (0x1F08, 0x1F0F, 1, 0x1F00), (0x1F18, 0x1F1D, 1, 0x1F10), (0x1F28, 0x1F2F, 1, 0x1F20),
     (0x1F38, 0x1F3F, 1, 0x1F30), (0x1F48, 0x1F4D, 1, 0x1F40), (0x1F59, 0x1F5F, 2, 0x1F51),
     (0x1F68, 0x1F6F, 1, 0x1F60), (0x1F88, 0x1F8F, 1, 0x1F80), (0x1F98, 0x1F9F, 1, 0x1F90),
     (0x1FA8, 0x1FAF, 1, 0x1FA0), (0x1FB8, 0x1FB9, 1, 0x1FB0), (0x1FBA, 0x1FBB, 1, 0x1F70),
     (0x1FBC, 0x1FBC, 1, 0x1FB3), (0x1FC8, 0x1FCB, 1, 0x1F72), (0x1FCC, 0x1FCC, 1, 0x1FC3),
     (0x1FD8, 0x1FD9, 1, 0x1FD0), (0x1FDA, 0x1FDB, 1, 0x1F76), (0x1FE8, 0x1FE9, 1, 0x1FE0),
     (0x1FEA, 0x1FEB, 1, 0x1F7A), (0x1FEC, 0x1FEC, 1, 0x1FE5), (0x1FF8, 0x1FF9, 1, 0x1F78),
     (0x1FFA, 0x1FFB, 1, 0x1F7C), (0x1FFC, 0x1FFC, 1, 0x1FF3), (0x2126, 0x2126, 1, 0x3C9),
     (0x212A, 0x212A, 1, 0x6B), (0x212B, 0x212B, 1, 0xE5), (0x2132, 0x2132, 1, 0x214E),
     (0x2160, 0x216F, 1, 0x2170), (0x2183, 0x2183, 1, 0x2184), (0x24B6, 0x24CF, 1, 0x24D0),
     (0x2C00, 0x2C2F, 1, 0x2C30), (0x2C60, 0x2C60, 1, 0x2C61), (0x2C62, 0x2C62, 1, 0x26B),
     (0x2C63, 0x2C63, 1, 0x1D7D), (0x2C64, 0x2C64, 1, 0x27D), (0x2C67, 0x2C6B, 2, 0x2C68),
     (0x2C6D, 0x2C6D, 1, 0x251), (0x2C6E, 0x2C6E, 1, 0x271), (0x2C6F, 0x2C6F, 1, 0x250),
     (0x2C70, 0x2C70, 1, 0x252), (0x2C72, 0x2C72, 1, 0x2C73), (0x2C75, 0x2C75, 1, 0x2C76),
     (0x2C7E, 0x2C7F, 1, 0x23F), (0x2C80, 0x2CE2, 2, 0x2C81), (0x2CEB, 0x2CED, 2, 0x2CEC),
     (0x2CF2, 0x2CF2, 1, 0x2CF3), (0xA640, 0xA66C, 2, 0xA641), (0xA680, 0xA69A, 2, 0xA681),
     (0xA722, 0xA72E, 2, 0xA723), (0xA732, 0xA76E, 2, 0xA733), (0xA779, 0xA77B, 2, 0xA77A),
     (0xA77D, 0xA77D, 1, 0x1D79), (0xA77E, 0xA786, 2, 0xA77F), (0xA78B, 0xA78B, 1, 0xA78C),
     (0xA78D, 0xA78D, 1, 0x265), (0xA790, 0xA792, 2, 0xA791), (0xA796, 0xA7A8, 2, 0xA797),
     (0xA7AA, 0xA7AA, 1, 0x266), (0xA7AB, 0xA7AB, 1, 0x25C), (0xA7AC, 0xA7AC, 1, 0x261),
     (0xA7AD, 0xA7AD, 1, 0x26C), (0xA7AE, 0xA7AE, 1, 0x26A), (0xA7B0, 0xA7B0, 1, 0x29E),
     (0xA7B1, 0xA7B1, 1, 0x287), (0xA7B2, 0xA7B2, 1, 0x29D), (0xA7B3, 0xA7B3, 1, 0xAB53),
     (0xA7B4, 0xA7C2, 2, 0xA7B5), (0xA7C4, 0xA7C4, 1, 0xA794), (0xA7C5, 0xA7C5, 1, 0x282),
     (0xA7C6, 0xA7C6, 1, 0x1D8E), (0xA7C7, 0xA7C9, 2, 0xA7C8), (0xA7D0, 0xA7D0, 1, 0xA7D1),
     (0xA7D6, 0xA7D8, 2, 0xA7D7), (0xA7F5, 0xA7F5, 1, 0xA7F6), (0xFF21, 0xFF3A, 1, 0xFF41),
     (0x10400, 0x10427, 1, 0x10428), (0x104B0, 0x104D3, 1, 0x104D8), (0x10570, 0x1057A, 1, 0x10597),
     (0x1057C, 0x1058A, 1, 0x105A3), (0x1058C, 0x10592, 1, 0x105B3), (0x10594, 0x10595, 1, 0x105BB),
     (0x10C80, 0x10CB2, 1, 0x10CC0), (0x118A0, 0x118BF, 1, 0x118C0), (0x16E40, 0x16E5F, 1, 0x16E60),
     (0x1E900, 0x1E921, 1, 0x1E922)
    ]"


fun lookupRun :: "codePoint \<Rightarrow> (nat \<times> nat \<times> nat \<times> nat) list \<Rightarrow> codePoint option" where
  "lookupRun c [] = None"
| "lookupRun c ((lo, hi, step, target) # runs) =
     (if lo \<le> c \<and> c \<le> hi \<and> (c - lo) mod step = 0 then Some (target + (c - lo))
      else lookupRun c runs)"

definition simpleLowercase :: "codePoint \<Rightarrow> codePoint" where
  "simpleLowercase c = (case lookupRun c lowercaseRuns of Some l \<Rightarrow> l | None \<Rightarrow> c)"

text \<open>
  Two mappings are not one-to-one. \<open>U+0130\<close> becomes \<open>U+0069 U+0307\<close>. \<open>U+03A3\<close>,
  capital sigma, becomes final sigma \<open>U+03C2\<close> in the context \<open>Final_Sigma\<close> and
  \<open>U+03C3\<close> elsewhere. The context holds when the nearest code point before the sigma
  that is not case-ignorable is cased, and the nearest one after it that is not
  case-ignorable is not cased or does not exist. The properties \<open>Cased\<close> and
  \<open>Case_Ignorable\<close> are given by their ranges in version 15.0 of the database.
\<close>

definition casedRanges :: "(nat \<times> nat) list" where
  "casedRanges =
    [
     (0x41, 0x5A), (0x61, 0x7A), (0xAA, 0xAA), (0xB5, 0xB5), (0xBA, 0xBA),
     (0xC0, 0xD6), (0xD8, 0xF6), (0xF8, 0x1BA), (0x1BC, 0x1BF), (0x1C4, 0x293),
     (0x295, 0x2B8), (0x2C0, 0x2C1), (0x2E0, 0x2E4), (0x345, 0x345), (0x370, 0x373),
     (0x376, 0x377), (0x37A, 0x37D), (0x37F, 0x37F), (0x386, 0x386), (0x388, 0x38A),
     (0x38C, 0x38C), (0x38E, 0x3A1), (0x3A3, 0x3F5), (0x3F7, 0x481), (0x48A, 0x52F),
     (0x531, 0x556), (0x560, 0x588), (0x10A0, 0x10C5), (0x10C7, 0x10C7), (0x10CD, 0x10CD),
     (0x10D0, 0x10FA), (0x10FC, 0x10FF), (0x13A0, 0x13F5), (0x13F8, 0x13FD), (0x1C80, 0x1C88),
     (0x1C90, 0x1CBA), (0x1CBD, 0x1CBF), (0x1D00, 0x1DBF), (0x1E00, 0x1F15), (0x1F18, 0x1F1D),
     (0x1F20, 0x1F45), (0x1F48, 0x1F4D), (0x1F50, 0x1F57), (0x1F59, 0x1F59), (0x1F5B, 0x1F5B),
     (0x1F5D, 0x1F5D), (0x1F5F, 0x1F7D), (0x1F80, 0x1FB4), (0x1FB6, 0x1FBC), (0x1FBE, 0x1FBE),
     (0x1FC2, 0x1FC4), (0x1FC6, 0x1FCC), (0x1FD0, 0x1FD3), (0x1FD6, 0x1FDB), (0x1FE0, 0x1FEC),
     (0x1FF2, 0x1FF4), (0x1FF6, 0x1FFC), (0x2071, 0x2071), (0x207F, 0x207F), (0x2090, 0x209C),
     (0x2102, 0x2102), (0x2107, 0x2107), (0x210A, 0x2113), (0x2115, 0x2115), (0x2119, 0x211D),
     (0x2124, 0x2124), (0x2126, 0x2126), (0x2128, 0x2128), (0x212A, 0x212D), (0x212F, 0x2134),
     (0x2139, 0x2139), (0x213C, 0x213F), (0x2145, 0x2149), (0x214E, 0x214E), (0x2160, 0x217F),
     (0x2183, 0x2184), (0x24B6, 0x24E9), (0x2C00, 0x2CE4), (0x2CEB, 0x2CEE), (0x2CF2, 0x2CF3),
     (0x2D00, 0x2D25), (0x2D27, 0x2D27), (0x2D2D, 0x2D2D), (0xA640, 0xA66D), (0xA680, 0xA69D),
     (0xA722, 0xA787), (0xA78B, 0xA78E), (0xA790, 0xA7CA), (0xA7D0, 0xA7D1), (0xA7D3, 0xA7D3),
     (0xA7D5, 0xA7D9), (0xA7F2, 0xA7F6), (0xA7F8, 0xA7FA), (0xAB30, 0xAB5A), (0xAB5C, 0xAB69),
     (0xAB70, 0xABBF), (0xFB00, 0xFB06), (0xFB13, 0xFB17), (0xFF21, 0xFF3A), (0xFF41, 0xFF5A),
     (0x10400, 0x1044F), (0x104B0, 0x104D3), (0x104D8, 0x104FB), (0x10570, 0x1057A), (0x1057C, 0x1058A),
     (0x1058C, 0x10592), (0x10594, 0x10595), (0x10597, 0x105A1), (0x105A3, 0x105B1), (0x105B3, 0x105B9),
     (0x105BB, 0x105BC), (0x10780, 0x10780), (0x10783, 0x10785), (0x10787, 0x107B0), (0x107B2, 0x107BA),
     (0x10C80, 0x10CB2), (0x10CC0, 0x10CF2), (0x118A0, 0x118DF), (0x16E40, 0x16E7F), (0x1D400, 0x1D454),
     (0x1D456, 0x1D49C), (0x1D49E, 0x1D49F), (0x1D4A2, 0x1D4A2), (0x1D4A5, 0x1D4A6), (0x1D4A9, 0x1D4AC),
     (0x1D4AE, 0x1D4B9), (0x1D4BB, 0x1D4BB), (0x1D4BD, 0x1D4C3), (0x1D4C5, 0x1D505), (0x1D507, 0x1D50A),
     (0x1D50D, 0x1D514), (0x1D516, 0x1D51C), (0x1D51E, 0x1D539), (0x1D53B, 0x1D53E), (0x1D540, 0x1D544),
     (0x1D546, 0x1D546), (0x1D54A, 0x1D550), (0x1D552, 0x1D6A5), (0x1D6A8, 0x1D6C0), (0x1D6C2, 0x1D6DA),
     (0x1D6DC, 0x1D6FA), (0x1D6FC, 0x1D714), (0x1D716, 0x1D734), (0x1D736, 0x1D74E), (0x1D750, 0x1D76E),
     (0x1D770, 0x1D788), (0x1D78A, 0x1D7A8), (0x1D7AA, 0x1D7C2), (0x1D7C4, 0x1D7CB), (0x1DF00, 0x1DF09),
     (0x1DF0B, 0x1DF1E), (0x1DF25, 0x1DF2A), (0x1E030, 0x1E06D), (0x1E900, 0x1E943), (0x1F130, 0x1F149),
     (0x1F150, 0x1F169), (0x1F170, 0x1F189)
    ]"


definition caseIgnorableRanges :: "(nat \<times> nat) list" where
  "caseIgnorableRanges =
    [
     (0x27, 0x27), (0x2E, 0x2E), (0x3A, 0x3A), (0x5E, 0x5E), (0x60, 0x60),
     (0xA8, 0xA8), (0xAD, 0xAD), (0xAF, 0xAF), (0xB4, 0xB4), (0xB7, 0xB8),
     (0x2B0, 0x36F), (0x374, 0x375), (0x37A, 0x37A), (0x384, 0x385), (0x387, 0x387),
     (0x483, 0x489), (0x559, 0x559), (0x55F, 0x55F), (0x591, 0x5BD), (0x5BF, 0x5BF),
     (0x5C1, 0x5C2), (0x5C4, 0x5C5), (0x5C7, 0x5C7), (0x5F4, 0x5F4), (0x600, 0x605),
     (0x610, 0x61A), (0x61C, 0x61C), (0x640, 0x640), (0x64B, 0x65F), (0x670, 0x670),
     (0x6D6, 0x6DD), (0x6DF, 0x6E8), (0x6EA, 0x6ED), (0x70F, 0x70F), (0x711, 0x711),
     (0x730, 0x74A), (0x7A6, 0x7B0), (0x7EB, 0x7F5), (0x7FA, 0x7FA), (0x7FD, 0x7FD),
     (0x816, 0x82D), (0x859, 0x85B), (0x888, 0x888), (0x890, 0x891), (0x898, 0x89F),
     (0x8C9, 0x902), (0x93A, 0x93A), (0x93C, 0x93C), (0x941, 0x948), (0x94D, 0x94D),
     (0x951, 0x957), (0x962, 0x963), (0x971, 0x971), (0x981, 0x981), (0x9BC, 0x9BC),
     (0x9C1, 0x9C4), (0x9CD, 0x9CD), (0x9E2, 0x9E3), (0x9FE, 0x9FE), (0xA01, 0xA02),
     (0xA3C, 0xA3C), (0xA41, 0xA42), (0xA47, 0xA48), (0xA4B, 0xA4D), (0xA51, 0xA51),
     (0xA70, 0xA71), (0xA75, 0xA75), (0xA81, 0xA82), (0xABC, 0xABC), (0xAC1, 0xAC5),
     (0xAC7, 0xAC8), (0xACD, 0xACD), (0xAE2, 0xAE3), (0xAFA, 0xAFF), (0xB01, 0xB01),
     (0xB3C, 0xB3C), (0xB3F, 0xB3F), (0xB41, 0xB44), (0xB4D, 0xB4D), (0xB55, 0xB56),
     (0xB62, 0xB63), (0xB82, 0xB82), (0xBC0, 0xBC0), (0xBCD, 0xBCD), (0xC00, 0xC00),
     (0xC04, 0xC04), (0xC3C, 0xC3C), (0xC3E, 0xC40), (0xC46, 0xC48), (0xC4A, 0xC4D),
     (0xC55, 0xC56), (0xC62, 0xC63), (0xC81, 0xC81), (0xCBC, 0xCBC), (0xCBF, 0xCBF),
     (0xCC6, 0xCC6), (0xCCC, 0xCCD), (0xCE2, 0xCE3), (0xD00, 0xD01), (0xD3B, 0xD3C),
     (0xD41, 0xD44), (0xD4D, 0xD4D), (0xD62, 0xD63), (0xD81, 0xD81), (0xDCA, 0xDCA),
     (0xDD2, 0xDD4), (0xDD6, 0xDD6), (0xE31, 0xE31), (0xE34, 0xE3A), (0xE46, 0xE4E),
     (0xEB1, 0xEB1), (0xEB4, 0xEBC), (0xEC6, 0xEC6), (0xEC8, 0xECE), (0xF18, 0xF19),
     (0xF35, 0xF35), (0xF37, 0xF37), (0xF39, 0xF39), (0xF71, 0xF7E), (0xF80, 0xF84),
     (0xF86, 0xF87), (0xF8D, 0xF97), (0xF99, 0xFBC), (0xFC6, 0xFC6), (0x102D, 0x1030),
     (0x1032, 0x1037), (0x1039, 0x103A), (0x103D, 0x103E), (0x1058, 0x1059), (0x105E, 0x1060),
     (0x1071, 0x1074), (0x1082, 0x1082), (0x1085, 0x1086), (0x108D, 0x108D), (0x109D, 0x109D),
     (0x10FC, 0x10FC), (0x135D, 0x135F), (0x1712, 0x1714), (0x1732, 0x1733), (0x1752, 0x1753),
     (0x1772, 0x1773), (0x17B4, 0x17B5), (0x17B7, 0x17BD), (0x17C6, 0x17C6), (0x17C9, 0x17D3),
     (0x17D7, 0x17D7), (0x17DD, 0x17DD), (0x180B, 0x180F), (0x1843, 0x1843), (0x1885, 0x1886),
     (0x18A9, 0x18A9), (0x1920, 0x1922), (0x1927, 0x1928), (0x1932, 0x1932), (0x1939, 0x193B),
     (0x1A17, 0x1A18), (0x1A1B, 0x1A1B), (0x1A56, 0x1A56), (0x1A58, 0x1A5E), (0x1A60, 0x1A60),
     (0x1A62, 0x1A62), (0x1A65, 0x1A6C), (0x1A73, 0x1A7C), (0x1A7F, 0x1A7F), (0x1AA7, 0x1AA7),
     (0x1AB0, 0x1ACE), (0x1B00, 0x1B03), (0x1B34, 0x1B34), (0x1B36, 0x1B3A), (0x1B3C, 0x1B3C),
     (0x1B42, 0x1B42), (0x1B6B, 0x1B73), (0x1B80, 0x1B81), (0x1BA2, 0x1BA5), (0x1BA8, 0x1BA9),
     (0x1BAB, 0x1BAD), (0x1BE6, 0x1BE6), (0x1BE8, 0x1BE9), (0x1BED, 0x1BED), (0x1BEF, 0x1BF1),
     (0x1C2C, 0x1C33), (0x1C36, 0x1C37), (0x1C78, 0x1C7D), (0x1CD0, 0x1CD2), (0x1CD4, 0x1CE0),
     (0x1CE2, 0x1CE8), (0x1CED, 0x1CED), (0x1CF4, 0x1CF4), (0x1CF8, 0x1CF9), (0x1D2C, 0x1D6A),
     (0x1D78, 0x1D78), (0x1D9B, 0x1DFF), (0x1FBD, 0x1FBD), (0x1FBF, 0x1FC1), (0x1FCD, 0x1FCF),
     (0x1FDD, 0x1FDF), (0x1FED, 0x1FEF), (0x1FFD, 0x1FFE), (0x200B, 0x200F), (0x2018, 0x2019),
     (0x2024, 0x2024), (0x2027, 0x2027), (0x202A, 0x202E), (0x2060, 0x2064), (0x2066, 0x206F),
     (0x2071, 0x2071), (0x207F, 0x207F), (0x2090, 0x209C), (0x20D0, 0x20F0), (0x2C7C, 0x2C7D),
     (0x2CEF, 0x2CF1), (0x2D6F, 0x2D6F), (0x2D7F, 0x2D7F), (0x2DE0, 0x2DFF), (0x2E2F, 0x2E2F),
     (0x3005, 0x3005), (0x302A, 0x302D), (0x3031, 0x3035), (0x303B, 0x303B), (0x3099, 0x309E),
     (0x30FC, 0x30FE), (0xA015, 0xA015), (0xA4F8, 0xA4FD), (0xA60C, 0xA60C), (0xA66F, 0xA672),
     (0xA674, 0xA67D), (0xA67F, 0xA67F), (0xA69C, 0xA69F), (0xA6F0, 0xA6F1), (0xA700, 0xA721),
     (0xA770, 0xA770), (0xA788, 0xA78A), (0xA7F2, 0xA7F4), (0xA7F8, 0xA7F9), (0xA802, 0xA802),
     (0xA806, 0xA806), (0xA80B, 0xA80B), (0xA825, 0xA826), (0xA82C, 0xA82C), (0xA8C4, 0xA8C5),
     (0xA8E0, 0xA8F1), (0xA8FF, 0xA8FF), (0xA926, 0xA92D), (0xA947, 0xA951), (0xA980, 0xA982),
     (0xA9B3, 0xA9B3), (0xA9B6, 0xA9B9), (0xA9BC, 0xA9BD), (0xA9CF, 0xA9CF), (0xA9E5, 0xA9E6),
     (0xAA29, 0xAA2E), (0xAA31, 0xAA32), (0xAA35, 0xAA36), (0xAA43, 0xAA43), (0xAA4C, 0xAA4C),
     (0xAA70, 0xAA70), (0xAA7C, 0xAA7C), (0xAAB0, 0xAAB0), (0xAAB2, 0xAAB4), (0xAAB7, 0xAAB8),
     (0xAABE, 0xAABF), (0xAAC1, 0xAAC1), (0xAADD, 0xAADD), (0xAAEC, 0xAAED), (0xAAF3, 0xAAF4),
     (0xAAF6, 0xAAF6), (0xAB5B, 0xAB5F), (0xAB69, 0xAB6B), (0xABE5, 0xABE5), (0xABE8, 0xABE8),
     (0xABED, 0xABED), (0xFB1E, 0xFB1E), (0xFBB2, 0xFBC2), (0xFE00, 0xFE0F), (0xFE13, 0xFE13),
     (0xFE20, 0xFE2F), (0xFE52, 0xFE52), (0xFE55, 0xFE55), (0xFEFF, 0xFEFF), (0xFF07, 0xFF07),
     (0xFF0E, 0xFF0E), (0xFF1A, 0xFF1A), (0xFF3E, 0xFF3E), (0xFF40, 0xFF40), (0xFF70, 0xFF70),
     (0xFF9E, 0xFF9F), (0xFFE3, 0xFFE3), (0xFFF9, 0xFFFB), (0x101FD, 0x101FD), (0x102E0, 0x102E0),
     (0x10376, 0x1037A), (0x10780, 0x10785), (0x10787, 0x107B0), (0x107B2, 0x107BA), (0x10A01, 0x10A03),
     (0x10A05, 0x10A06), (0x10A0C, 0x10A0F), (0x10A38, 0x10A3A), (0x10A3F, 0x10A3F), (0x10AE5, 0x10AE6),
     (0x10D24, 0x10D27), (0x10EAB, 0x10EAC), (0x10EFD, 0x10EFF), (0x10F46, 0x10F50), (0x10F82, 0x10F85),
     (0x11001, 0x11001), (0x11038, 0x11046), (0x11070, 0x11070), (0x11073, 0x11074), (0x1107F, 0x11081),
     (0x110B3, 0x110B6), (0x110B9, 0x110BA), (0x110BD, 0x110BD), (0x110C2, 0x110C2), (0x110CD, 0x110CD),
     (0x11100, 0x11102), (0x11127, 0x1112B), (0x1112D, 0x11134), (0x11173, 0x11173), (0x11180, 0x11181),
     (0x111B6, 0x111BE), (0x111C9, 0x111CC), (0x111CF, 0x111CF), (0x1122F, 0x11231), (0x11234, 0x11234),
     (0x11236, 0x11237), (0x1123E, 0x1123E), (0x11241, 0x11241), (0x112DF, 0x112DF), (0x112E3, 0x112EA),
     (0x11300, 0x11301), (0x1133B, 0x1133C), (0x11340, 0x11340), (0x11366, 0x1136C), (0x11370, 0x11374),
     (0x11438, 0x1143F), (0x11442, 0x11444), (0x11446, 0x11446), (0x1145E, 0x1145E), (0x114B3, 0x114B8),
     (0x114BA, 0x114BA), (0x114BF, 0x114C0), (0x114C2, 0x114C3), (0x115B2, 0x115B5), (0x115BC, 0x115BD),
     (0x115BF, 0x115C0), (0x115DC, 0x115DD), (0x11633, 0x1163A), (0x1163D, 0x1163D), (0x1163F, 0x11640),
     (0x116AB, 0x116AB), (0x116AD, 0x116AD), (0x116B0, 0x116B5), (0x116B7, 0x116B7), (0x1171D, 0x1171F),
     (0x11722, 0x11725), (0x11727, 0x1172B), (0x1182F, 0x11837), (0x11839, 0x1183A), (0x1193B, 0x1193C),
     (0x1193E, 0x1193E), (0x11943, 0x11943), (0x119D4, 0x119D7), (0x119DA, 0x119DB), (0x119E0, 0x119E0),
     (0x11A01, 0x11A0A), (0x11A33, 0x11A38), (0x11A3B, 0x11A3E), (0x11A47, 0x11A47), (0x11A51, 0x11A56),
     (0x11A59, 0x11A5B), (0x11A8A, 0x11A96), (0x11A98, 0x11A99), (0x11C30, 0x11C36), (0x11C38, 0x11C3D),
     (0x11C3F, 0x11C3F), (0x11C92, 0x11CA7), (0x11CAA, 0x11CB0), (0x11CB2, 0x11CB3), (0x11CB5, 0x11CB6),
     (0x11D31, 0x11D36), (0x11D3A, 0x11D3A), (0x11D3C, 0x11D3D), (0x11D3F, 0x11D45), (0x11D47, 0x11D47),
     (0x11D90, 0x11D91), (0x11D95, 0x11D95), (0x11D97, 0x11D97), (0x11EF3, 0x11EF4), (0x11F00, 0x11F01),
     (0x11F36, 0x11F3A), (0x11F40, 0x11F40), (0x11F42, 0x11F42), (0x13430, 0x13440), (0x13447, 0x13455),
     (0x16AF0, 0x16AF4), (0x16B30, 0x16B36), (0x16B40, 0x16B43), (0x16F4F, 0x16F4F), (0x16F8F, 0x16F9F),
     (0x16FE0, 0x16FE1), (0x16FE3, 0x16FE4), (0x1AFF0, 0x1AFF3), (0x1AFF5, 0x1AFFB), (0x1AFFD, 0x1AFFE),
     (0x1BC9D, 0x1BC9E), (0x1BCA0, 0x1BCA3), (0x1CF00, 0x1CF2D), (0x1CF30, 0x1CF46), (0x1D167, 0x1D169),
     (0x1D173, 0x1D182), (0x1D185, 0x1D18B), (0x1D1AA, 0x1D1AD), (0x1D242, 0x1D244), (0x1DA00, 0x1DA36),
     (0x1DA3B, 0x1DA6C), (0x1DA75, 0x1DA75), (0x1DA84, 0x1DA84), (0x1DA9B, 0x1DA9F), (0x1DAA1, 0x1DAAF),
     (0x1E000, 0x1E006), (0x1E008, 0x1E018), (0x1E01B, 0x1E021), (0x1E023, 0x1E024), (0x1E026, 0x1E02A),
     (0x1E030, 0x1E06D), (0x1E08F, 0x1E08F), (0x1E130, 0x1E13D), (0x1E2AE, 0x1E2AE), (0x1E2EC, 0x1E2EF),
     (0x1E4EB, 0x1E4EF), (0x1E8D0, 0x1E8D6), (0x1E944, 0x1E94B), (0x1F3FB, 0x1F3FF), (0xE0001, 0xE0001),
     (0xE0020, 0xE007F), (0xE0100, 0xE01EF)
    ]"

fun inRanges :: "codePoint \<Rightarrow> (nat \<times> nat) list \<Rightarrow> bool" where
  "inRanges c [] = False"
| "inRanges c ((lo, hi) # ranges) = ((lo \<le> c \<and> c \<le> hi) \<or> inRanges c ranges)"

definition cased :: "codePoint \<Rightarrow> bool" where
  "cased c = inRanges c casedRanges"

definition caseIgnorable :: "codePoint \<Rightarrow> bool" where
  "caseIgnorable c = inRanges c caseIgnorableRanges"

text \<open>\<open>preceding\<close> holds the code points before the sigma, the nearest first.\<close>

definition finalSigma :: "codePoint list \<Rightarrow> codePoint list \<Rightarrow> bool" where
  "finalSigma preceding following =
     ((case dropWhile caseIgnorable preceding of [] \<Rightarrow> False | c # _ \<Rightarrow> cased c)
      \<and> (case dropWhile caseIgnorable following of [] \<Rightarrow> True | c # _ \<Rightarrow> \<not> cased c))"

definition lowercaseMapping :: "codePoint list \<Rightarrow> codePoint \<Rightarrow> codePoint list \<Rightarrow> codePoint list" where
  "lowercaseMapping preceding c following =
     (if c = 0x130 then [0x69, 0x307]
      else if c = 0x3A3 \<and> finalSigma preceding following then [0x3C2]
      else [simpleLowercase c])"

fun toLowercase :: "codePoint list \<Rightarrow> codePoint list \<Rightarrow> codePoint list" where
  "toLowercase preceding [] = []"
| "toLowercase preceding (c # following) =
     lowercaseMapping preceding c following @ toLowercase (c # preceding) following"

definition toLowerCase :: "jsString \<Rightarrow> jsString" where
  "toLowerCase s = concat (map codePointToUnits (toLowercase [] (stringToCodePoints s)))"

subsubsection \<open>Truthiness and method calls\<close>

text \<open>Truthiness of a string operand: \<open>undefined\<close>, \<open>null\<close> and the empty string
  are falsy.\<close>

definition truthyString :: "jsString nullable \<Rightarrow> bool" where
  "truthyString v = (case v of Val s \<Rightarrow> s \<noteq> [] | Undefined \<Rightarrow> False | Null \<Rightarrow> False)"

text \<open>A method call on a receiver that is \<open>undefined\<close> or \<open>null\<close> raises.\<close>

definition callTrim :: "jsString nullable \<Rightarrow> error + jsString" where
  "callTrim v = (case v of Val s \<Rightarrow> Inr (trim s) | Undefined \<Rightarrow> Inl TypeError | Null \<Rightarrow> Inl TypeError)"

subsection \<open>The module\<close>

definition isEscala12x36 :: "jsString nullable \<Rightarrow> error + bool" where
  "isEscala12x36 e =
     (if \<not> truthyString e then Inr False
      else case callTrim e of
             Inl err \<Rightarrow> Inl err
           | Inr t \<Rightarrow> Inr (toLowerCase t = jsLit ''12x36''))"

text \<open>
  The local constant \<open>baseEfetivo\<close>. The test
  \<open>posto.efetivo_planejado && posto.efetivo_planejado > 0\<close> is falsy when the field is
  \<open>undefined\<close>, \<open>null\<close> or \<open>0\<close> (the left operand is falsy and \<open>&&\<close> returns it),
  and otherwise is the comparison of the field, then a number, with \<open>0\<close>.
\<close>

definition baseEfetivo :: "PostoEfetivoInfo \<Rightarrow> int" where
  "baseEfetivo posto =
     (case efetivo_planejado posto of
        Val n \<Rightarrow> if n \<noteq> 0 \<and> n > 0 then n else 1
      | Undefined \<Rightarrow> 1
      | Null \<Rightarrow> 1)"

definition getEfetivoPlanejadoAjustado :: "PostoEfetivoInfo \<Rightarrow> error + int" where
  "getEfetivoPlanejadoAjustado posto =
     (case isEscala12x36 (escala posto) of
        Inl err \<Rightarrow> Inl err
      | Inr is12x36 \<Rightarrow>
          if is12x36 then Inr (max (baseEfetivo posto) MIN_EFETIVO_ESCALA_12X36)
          else Inr (baseEfetivo posto))"

definition getCoberturaParaPosto :: "int \<Rightarrow> PostoEfetivoInfo \<Rightarrow> error + Cobertura" where
  "getCoberturaParaPosto colaboradoresAtivos posto =
     (case getEfetivoPlanejadoAjustado posto of
        Inl err \<Rightarrow> Inl err
      | Inr necessario \<Rightarrow>
          Inr \<lparr> efetivoNecessario = necessario,
                efetivoConsiderado = min colaboradoresAtivos necessario,
                estaCoberto = (colaboradoresAtivos \<ge> necessario) \<rparr>)"


subsection \<open>The specification's wording of the rotation check\<close>

text \<open>
  The specification describes \<open>isTwelveBySixThirtySix\<close> as: trim surrounding white space,
  fold case, compare with the literal \<open>"12x36"\<close>; false for an absent shift type. This
  definition follows those words, for comparison with \<open>isEscala12x36\<close>.
\<close>

definition isTwelveBySixThirtySix_spec :: "jsString nullable \<Rightarrow> bool" where
  "isTwelveBySixThirtySix_spec shiftType =
     (case shiftType of
        Val s \<Rightarrow> toLowerCase (trim s) = jsLit ''12x36''
      | Undefined \<Rightarrow> False
      | Null \<Rightarrow> False)"

subsection \<open>The module over an object store\<close>

text \<open>
  An object is passed by reference, so whether a call changes its argument is a question
  about the store of objects. Here the functions receive the address of the post and
  read its properties from the store. The three reads of \<open>posto.efetivo_planejado\<close> in
  the conditional have nothing between them and are one read here. The shift type is a
  string, a primitive passed by value, and the result record is returned by value. The
  module has no variable binding besides the constant \<open>MIN_EFETIVO_ESCALA_12X36\<close>, so
  the store is the whole state a call could change.
\<close>

type_synonym ref = nat

type_synonym store = "ref \<Rightarrow> PostoEfetivoInfo"

definition readEscala :: "ref \<Rightarrow> (store, jsString nullable) state" where
  "readEscala posto = State (\<lambda>h. (escala (h posto), h))"

definition readEfetivoPlanejado :: "ref \<Rightarrow> (store, int nullable) state" where
  "readEfetivoPlanejado posto = State (\<lambda>h. (efetivo_planejado (h posto), h))"

definition isEscala12x36_st :: "jsString nullable \<Rightarrow> (store, error + bool) state" where
  "isEscala12x36_st e =
     (if \<not> truthyString e then State_Monad.return (Inr False)
      else State_Monad.return
             (case callTrim e of
                Inl err \<Rightarrow> Inl err
              | Inr t \<Rightarrow> Inr (toLowerCase t = jsLit ''12x36'')))"

definition getEfetivoPlanejadoAjustado_st :: "ref \<Rightarrow> (store, error + int) state" where
  "getEfetivoPlanejadoAjustado_st posto = do {
     planejado \<leftarrow> readEfetivoPlanejado posto;
     let base = (case planejado of
                   Val n \<Rightarrow> if n \<noteq> 0 \<and> n > 0 then n else 1
                 | Undefined \<Rightarrow> 1
                 | Null \<Rightarrow> 1);
     e \<leftarrow> readEscala posto;
     r \<leftarrow> isEscala12x36_st e;
     State_Monad.return
       (case r of
          Inl err \<Rightarrow> Inl err
        | Inr is12x36 \<Rightarrow>
            if is12x36 then Inr (max base MIN_EFETIVO_ESCALA_12X36) else Inr base)
   }"

definition getCoberturaParaPosto_st :: "int \<Rightarrow> ref \<Rightarrow> (store, error + Cobertura) state" where
  "getCoberturaParaPosto_st colaboradoresAtivos posto = do {
     r \<leftarrow> getEfetivoPlanejadoAjustado_st posto;
     State_Monad.return
       (case r of
          Inl err \<Rightarrow> Inl err
        | Inr necessario \<Rightarrow>
            Inr \<lparr> efetivoNecessario = necessario,
                  efetivoConsiderado = min colaboradoresAtivos necessario,
                  estaCoberto = (colaboradoresAtivos \<ge> necessario) \<rparr>)
   }"

section \<open>Properties\<close>

subsection \<open>Which strings have the lower case \<open>12x36\<close>\<close>

text \<open>
  No entry of the table has a digit or \<open>x\<close> among its targets, except that \<open>X\<close>
  becomes \<open>x\<close>: every entry but two has its targets above \<open>x\<close>, \<open>U+212A\<close> becomes
  \<open>k\<close>, and the remaining entry is the Latin capitals \<open>A\<close> to \<open>Z\<close>.
\<close>

lemma lookupRun_Some:
  "lookupRun c rs = Some l \<Longrightarrow>
     \<exists>lo hi step target. (lo, hi, step, target) \<in> set rs \<and> lo \<le> c \<and> c \<le> hi \<and> l = target + (c - lo)"
proof (induction rs)
  case Nil
  then show ?case by simp
next
  case (Cons r rs)
  obtain lo hi step target where r: "r = (lo, hi, step, target)" by (cases r)
  show ?case
  proof (cases "lo \<le> c \<and> c \<le> hi \<and> (c - lo) mod step = 0")
    case True
    with Cons.prems have "l = target + (c - lo)" by (simp add: r)
    with True show ?thesis unfolding r by (intro exI [of _ lo] exI [of _ hi] exI [of _ step] exI [of _ target]) simp
  next
    case False
    with Cons.prems have "lookupRun c rs = Some l" by (simp add: r)
    from Cons.IH [OF this] show ?thesis by fastforce
  qed
qed

lemma lowercaseRuns_targets:
  "list_all (\<lambda>(lo, hi, step, target).
       0x78 < target \<or> (lo = hi \<and> target = 0x6B) \<or> (lo = 0x41 \<and> hi = 0x5A \<and> target = 0x61))
     lowercaseRuns"
  by (simp add: lowercaseRuns_def)


lemma simpleLowercase_target:
  assumes "simpleLowercase c \<in> {0x31, 0x32, 0x33, 0x36, 0x78}"
  shows "c = simpleLowercase c \<or> (c = 0x58 \<and> simpleLowercase c = 0x78)"
proof (cases "lookupRun c lowercaseRuns")
  case None
  then show ?thesis by (simp add: simpleLowercase_def)
next
  case (Some l)
  then have l: "simpleLowercase c = l" by (simp add: simpleLowercase_def)
  from lookupRun_Some [OF Some] obtain lo hi step target
    where r: "(lo, hi, step, target) \<in> set lowercaseRuns" "lo \<le> c" "c \<le> hi" "l = target + (c - lo)"
    by blast
  from r(1) lowercaseRuns_targets
  have "0x78 < target \<or> (lo = hi \<and> target = 0x6B) \<or> (lo = 0x41 \<and> hi = 0x5A \<and> target = 0x61)"
    by (auto simp: list_all_iff)
  with r(2-4) assms show ?thesis unfolding l by auto
qed

lemma simpleLowercase_1: "simpleLowercase 0x31 = 0x31"
  by (simp add: simpleLowercase_def lowercaseRuns_def)
lemma simpleLowercase_2: "simpleLowercase 0x32 = 0x32"
  by (simp add: simpleLowercase_def lowercaseRuns_def)
lemma simpleLowercase_3: "simpleLowercase 0x33 = 0x33"
  by (simp add: simpleLowercase_def lowercaseRuns_def)
lemma simpleLowercase_6: "simpleLowercase 0x36 = 0x36"
  by (simp add: simpleLowercase_def lowercaseRuns_def)
lemma simpleLowercase_x: "simpleLowercase 0x78 = 0x78"
  by (simp add: simpleLowercase_def lowercaseRuns_def)
lemma simpleLowercase_X: "simpleLowercase 0x58 = 0x78"
  by (simp add: simpleLowercase_def lowercaseRuns_def)

lemmas simpleLowercase_values =
  simpleLowercase_1 simpleLowercase_2 simpleLowercase_3 simpleLowercase_6
  simpleLowercase_x simpleLowercase_X



lemma unat_of_nat_16: "n < 0x10000 \<Longrightarrow> unat (of_nat n :: 16 word) = n"
  by (simp add: unat_of_nat)

lemma codePointToUnits_target:
  assumes "\<forall>u \<in> set (codePointToUnits l). unat u \<in> {0x31, 0x32, 0x33, 0x36, 0x78}"
  shows "l \<in> {0x31, 0x32, 0x33, 0x36, 0x78} \<and> codePointToUnits l = [of_nat l]"
proof (cases "l < 0x10000")
  case True
  then have "codePointToUnits l = [of_nat l]" by (simp add: codePointToUnits_def)
  moreover from True have "unat (of_nat l :: 16 word) = l" by (rule unat_of_nat_16)
  ultimately show ?thesis using assms by simp
next
  case False
  have "0xDC00 + (l - 0x10000) mod 0x400 < (0x10000 :: nat)"
    using mod_less_divisor [of "0x400 :: nat" "l - 0x10000"] by linarith
  then have u: "unat (of_nat (0xDC00 + (l - 0x10000) mod 0x400) :: 16 word) = 0xDC00 + (l - 0x10000) mod 0x400"
    by (rule unat_of_nat_16)
  from False have "of_nat (0xDC00 + (l - 0x10000) mod 0x400) \<in> set (codePointToUnits l)"
    by (simp add: codePointToUnits_def)
  with assms have "unat (of_nat (0xDC00 + (l - 0x10000) mod 0x400) :: 16 word) \<in> {0x31, 0x32, 0x33, 0x36, 0x78}"
    by blast
  then have False unfolding u by auto
  then show ?thesis ..
qed

lemma lowercaseMapping_target:
  assumes "\<forall>u \<in> set (concat (map codePointToUnits (lowercaseMapping p c f))).
             unat u \<in> {0x31, 0x32, 0x33, 0x36, 0x78}"
  shows "simpleLowercase c \<in> {0x31, 0x32, 0x33, 0x36, 0x78}
         \<and> concat (map codePointToUnits (lowercaseMapping p c f)) = [of_nat (simpleLowercase c)]"
proof -
  have a: "c \<noteq> 0x130"
  proof
    assume "c = 0x130"
    with assms show False by (simp add: lowercaseMapping_def codePointToUnits_def)
  qed
  have b: "\<not> (c = 0x3A3 \<and> finalSigma p f)"
  proof
    assume "c = 0x3A3 \<and> finalSigma p f"
    with assms show False by (simp add: lowercaseMapping_def codePointToUnits_def)
  qed
  from a b have m: "lowercaseMapping p c f = [simpleLowercase c]"
    by (auto simp: lowercaseMapping_def)
  with assms have "\<forall>u \<in> set (codePointToUnits (simpleLowercase c)). unat u \<in> {0x31, 0x32, 0x33, 0x36, 0x78}"
    by simp
  from codePointToUnits_target [OF this] show ?thesis by (simp add: m)
qed

lemma toLowercase_target:
  assumes "\<forall>u \<in> set (concat (map codePointToUnits (toLowercase p cps))).
             unat u \<in> {0x31, 0x32, 0x33, 0x36, 0x78}"
  shows "(\<forall>c \<in> set cps. simpleLowercase c \<in> {0x31, 0x32, 0x33, 0x36, 0x78})
         \<and> concat (map codePointToUnits (toLowercase p cps)) = map (\<lambda>c. of_nat (simpleLowercase c)) cps"
  using assms
proof (induction cps arbitrary: p)
  case Nil
  then show ?case by simp
next
  case (Cons c cps)
  from Cons.prems
  have 1: "\<forall>u \<in> set (concat (map codePointToUnits (lowercaseMapping p c cps))).
             unat u \<in> {0x31, 0x32, 0x33, 0x36, 0x78}"
   and 2: "\<forall>u \<in> set (concat (map codePointToUnits (toLowercase (c # p) cps))).
             unat u \<in> {0x31, 0x32, 0x33, 0x36, 0x78}"
    by auto
  from lowercaseMapping_target [OF 1] Cons.IH [OF 2] show ?case by simp
qed

lemma stringToCodePoints_bmp:
  "\<forall>c \<in> set (stringToCodePoints s). c < 0x10000 \<Longrightarrow> stringToCodePoints s = map unat s"
  by (induction s rule: stringToCodePoints.induct) (auto split: if_splits)


lemmas string_evaluation =
  jsLit_def trim_def isWhiteSpace_def toLowerCase_def isLeadingSurrogate_def
  isTrailingSurrogate_def codePointToUnits_def lowercaseMapping_def simpleLowercase_def
  lowercaseRuns_def

lemma toLowerCase_12x36: "toLowerCase (jsLit ''12x36'') = jsLit ''12x36''"
  by (simp add: string_evaluation)

lemma toLowerCase_12X36: "toLowerCase (jsLit ''12X36'') = jsLit ''12x36''"
  by (simp add: string_evaluation)

lemma unit_cases:
  assumes "simpleLowercase (unat (u :: codeUnit)) \<in> {0x31, 0x32, 0x33, 0x36, 0x78}"
  shows "u \<in> {0x31, 0x32, 0x33, 0x36, 0x78, 0x58}
         \<and> (of_nat (simpleLowercase (unat u)) :: codeUnit) = (if u = 0x58 then 0x78 else u)"
proof -
  from simpleLowercase_target [OF assms] assms
  have "unat u \<in> {0x31, 0x32, 0x33, 0x36, 0x78, 0x58}" by auto
  then have u: "u \<in> {0x31, 0x32, 0x33, 0x36, 0x78, 0x58}"
    by (auto simp: word_unat_eq_iff)
  then show ?thesis
    by (auto simp: simpleLowercase_values)
qed

lemma toLowerCase_eq_12x36:
  "toLowerCase s = jsLit ''12x36'' \<longleftrightarrow> s = jsLit ''12x36'' \<or> s = jsLit ''12X36''"
proof
  assume "s = jsLit ''12x36'' \<or> s = jsLit ''12X36''"
  then show "toLowerCase s = jsLit ''12x36''"
    using toLowerCase_12x36 toLowerCase_12X36 by auto
next
  assume t: "toLowerCase s = jsLit ''12x36''"
  have lit: "jsLit ''12x36'' = [0x31, 0x32, 0x78, 0x33, 0x36]" by (simp add: jsLit_def)
  have "\<forall>u \<in> set (toLowerCase s). unat u \<in> {0x31, 0x32, 0x33, 0x36, 0x78}"
    unfolding t lit by simp
  then have "\<forall>u \<in> set (concat (map codePointToUnits (toLowercase [] (stringToCodePoints s)))).
               unat u \<in> {0x31, 0x32, 0x33, 0x36, 0x78}"
    by (simp add: toLowerCase_def)
  from toLowercase_target [OF this]
  have cps: "\<forall>c \<in> set (stringToCodePoints s). simpleLowercase c \<in> {0x31, 0x32, 0x33, 0x36, 0x78}"
    and low: "toLowerCase s = map (\<lambda>c. of_nat (simpleLowercase c)) (stringToCodePoints s)"
    by (simp_all add: toLowerCase_def)
  have "\<forall>c \<in> set (stringToCodePoints s). c < 0x10000"
  proof
    fix c assume "c \<in> set (stringToCodePoints s)"
    with cps have "simpleLowercase c \<in> {0x31, 0x32, 0x33, 0x36, 0x78}" by blast
    from simpleLowercase_target [OF this] this show "c < 0x10000" by auto
  qed
  then have dec: "stringToCodePoints s = map unat s" by (rule stringToCodePoints_bmp)
  from cps have units: "\<forall>u \<in> set s. simpleLowercase (unat u) \<in> {0x31, 0x32, 0x33, 0x36, 0x78}"
    by (simp add: dec)
  have "map (\<lambda>u. if u = 0x58 then 0x78 else u) s = jsLit ''12x36''"
  proof -
    have "map (\<lambda>u. if u = 0x58 then 0x78 else u) s = map (\<lambda>u. of_nat (simpleLowercase (unat u))) s"
      using units unit_cases by (intro map_cong) auto
    also have "\<dots> = toLowerCase s" by (simp add: low dec comp_def)
    finally show ?thesis using t by simp
  qed
  then show "s = jsLit ''12x36'' \<or> s = jsLit ''12X36''"
    unfolding jsLit_def by (auto simp: map_eq_Cons_conv split: if_splits)
qed


subsection \<open>Trimming\<close>

text \<open>
  A string that neither starts nor ends with white space is the trimmed form of exactly
  the strings that surround it with white space.
\<close>

lemma trim_eq_iff:
  assumes "t \<noteq> []" "\<not> isWhiteSpace (hd t)" "\<not> isWhiteSpace (last t)"
  shows "trim s = t \<longleftrightarrow>
         (\<exists>pre post. s = pre @ t @ post \<and> list_all isWhiteSpace pre \<and> list_all isWhiteSpace post)"
proof
  assume tr: "trim s = t"
  define u where "u = dropWhile isWhiteSpace s"
  define pre where "pre = takeWhile isWhiteSpace s"
  define post where "post = rev (takeWhile isWhiteSpace (rev u))"
  have s: "s = pre @ u" by (simp add: pre_def u_def)
  have "rev u = takeWhile isWhiteSpace (rev u) @ dropWhile isWhiteSpace (rev u)" by simp
  then have "u = rev (dropWhile isWhiteSpace (rev u)) @ post"
    unfolding post_def by (metis rev_append rev_rev_ident)
  then have u: "u = t @ post" using tr by (simp add: trim_def u_def)
  have "list_all isWhiteSpace pre"
    unfolding pre_def list_all_iff by (auto dest: set_takeWhileD)
  moreover have "list_all isWhiteSpace post"
    unfolding post_def list_all_iff by (auto dest: set_takeWhileD)
  ultimately show "\<exists>pre post. s = pre @ t @ post \<and> list_all isWhiteSpace pre \<and> list_all isWhiteSpace post"
    using s u by blast
next
  assume "\<exists>pre post. s = pre @ t @ post \<and> list_all isWhiteSpace pre \<and> list_all isWhiteSpace post"
  then obtain pre post where s: "s = pre @ t @ post"
    and pre: "list_all isWhiteSpace pre" and post: "list_all isWhiteSpace post" by blast
  from assms obtain a t' where t: "t = a # t'" and a: "\<not> isWhiteSpace a"
    by (cases t) auto
  from assms obtain b t'' where t2: "rev t = b # t''" and b: "\<not> isWhiteSpace b"
    by (cases t rule: rev_cases) auto
  have 1: "dropWhile isWhiteSpace s = t @ post"
    using pre a unfolding s t by (simp add: dropWhile_append2 list_all_iff)
  have "dropWhile isWhiteSpace (rev post @ rev t) = dropWhile isWhiteSpace (rev t)"
    using post by (intro dropWhile_append2) (simp add: list_all_iff)
  then have 2: "dropWhile isWhiteSpace (rev (t @ post)) = rev t"
    using b by (simp add: t2)
  show "trim s = t" by (simp add: trim_def 1 2 del: rev_append)
qed

subsection \<open>What each function returns\<close>

lemma isEscala12x36_Inr:
  "isEscala12x36 e =
     Inr (case e of Val s \<Rightarrow> toLowerCase (trim s) = jsLit ''12x36'' | Undefined \<Rightarrow> False | Null \<Rightarrow> False)"
  by (cases e) (auto simp: isEscala12x36_def truthyString_def callTrim_def trim_def toLowerCase_def jsLit_def)

lemma isEscala12x36_shape:
  "isEscala12x36 (Val s) =
     Inr (\<exists>pre core post. s = pre @ core @ post \<and> list_all isWhiteSpace pre
            \<and> list_all isWhiteSpace post \<and> (core = jsLit ''12x36'' \<or> core = jsLit ''12X36''))"
proof -
  have a: "trim s = jsLit ''12x36'' \<longleftrightarrow>
      (\<exists>pre post. s = pre @ jsLit ''12x36'' @ post \<and> list_all isWhiteSpace pre \<and> list_all isWhiteSpace post)"
    by (rule trim_eq_iff) (simp_all add: isWhiteSpace_def jsLit_def)
  have b: "trim s = jsLit ''12X36'' \<longleftrightarrow>
      (\<exists>pre post. s = pre @ jsLit ''12X36'' @ post \<and> list_all isWhiteSpace pre \<and> list_all isWhiteSpace post)"
    by (rule trim_eq_iff) (simp_all add: isWhiteSpace_def jsLit_def)
  show ?thesis
    unfolding isEscala12x36_Inr nullable.case toLowerCase_eq_12x36 a b by blast
qed

lemma baseEfetivo_cases:
  "baseEfetivo posto =
     (case efetivo_planejado posto of Val n \<Rightarrow> if 0 < n then n else 1 | Undefined \<Rightarrow> 1 | Null \<Rightarrow> 1)"
  by (simp add: baseEfetivo_def split: nullable.split)

lemma baseEfetivo_ge_1: "1 \<le> baseEfetivo posto"
  by (simp add: baseEfetivo_cases split: nullable.split)

lemma getEfetivoPlanejadoAjustado_Inr:
  "getEfetivoPlanejadoAjustado posto =
     Inr (if isEscala12x36 (escala posto) = Inr True then max (baseEfetivo posto) 4
          else baseEfetivo posto)"
  by (simp add: getEfetivoPlanejadoAjustado_def isEscala12x36_Inr MIN_EFETIVO_ESCALA_12X36_def)

lemma getCoberturaParaPosto_Inr:
  "getEfetivoPlanejadoAjustado posto = Inr necessario \<Longrightarrow>
   getCoberturaParaPosto colaboradoresAtivos posto =
     Inr \<lparr> efetivoNecessario = necessario,
           efetivoConsiderado = min colaboradoresAtivos necessario,
           estaCoberto = (colaboradoresAtivos \<ge> necessario) \<rparr>"
  by (simp add: getCoberturaParaPosto_def)



subsection \<open>The check on some strings\<close>

lemmas check_evaluation =
  isEscala12x36_def truthyString_def callTrim_def string_evaluation

lemma isEscala12x36_12x36: "isEscala12x36 (Val (jsLit ''12x36'')) = Inr True"
  by (simp add: check_evaluation)

lemma isEscala12x36_12X36: "isEscala12x36 (Val (jsLit ''12X36'')) = Inr True"
  by (simp add: check_evaluation)

lemma isEscala12x36_spaced: "isEscala12x36 (Val (jsLit '' 12X36 '')) = Inr True"
  by (simp add: check_evaluation)

lemma isEscala12x36_diarista: "isEscala12x36 (Val (jsLit ''diarista'')) = Inr False"
  by (simp add: check_evaluation)

lemma isEscala12x36_absent: "isEscala12x36 Undefined = Inr False" "isEscala12x36 Null = Inr False"
  by (simp_all add: isEscala12x36_def truthyString_def)

lemmas module_evaluation =
  getCoberturaParaPosto_def getEfetivoPlanejadoAjustado_def baseEfetivo_def
  MIN_EFETIVO_ESCALA_12X36_def isEscala12x36_12x36 isEscala12x36_12X36 isEscala12x36_spaced
  isEscala12x36_diarista isEscala12x36_absent

text \<open>
  White space and letters beyond \<open>U+00FF\<close>: a byte order mark and an ideographic space
  around the label are trimmed; the Kelvin sign becomes \<open>k\<close>, capital I with dot
  becomes two code points, a sigma at the end of a word becomes final sigma, a Deseret
  capital (a surrogate pair) becomes its small letter, and a lone surrogate stays.
\<close>

lemma isEscala12x36_wide_space:
  "isEscala12x36 (Val ([0xFEFF, 0x3000] @ jsLit ''12X36'' @ [0x2003, 0x2029])) = Inr True"
  by (simp add: check_evaluation)

lemma toLowerCase_beyond_latin:
  "toLowerCase [0x212A, 0x130, 0x391, 0x3A3, 0x20, 0x3A3, 0x3A3, 0x301, 0x41, 0xD801, 0xDC00, 0xD801]
     = [0x6B, 0x69, 0x307, 0x3B1, 0x3C2, 0x20, 0x3C3, 0x3C3, 0x301, 0x61, 0xD801, 0xDC28, 0xD801]"
  by (simp add: string_evaluation finalSigma_def cased_def caseIgnorable_def
      casedRanges_def caseIgnorableRanges_def)

section \<open>The claims\<close>

text \<open>
  C1. For every post whose shift type is a 12x36 rotation (as \<open>isEscala12x36\<close> decides),
  \<open>getEfetivoPlanejadoAjustado\<close> returns the greater of the baseline and 4, where the
  baseline is the planned head count if it is present and positive and 1 otherwise. In
  particular a 12x36 post planned for 2 yields 4, and one planned for 6 yields 6.
\<close>

theorem getEfetivoPlanejadoAjustado_12x36_floor:
  "(isEscala12x36 (escala posto) = Inr True \<longrightarrow>
      getEfetivoPlanejadoAjustado posto =
        Inr (max (case efetivo_planejado posto of
                    Val n \<Rightarrow> if 0 < n then n else 1
                  | Undefined \<Rightarrow> 1
                  | Null \<Rightarrow> 1) 4))
   \<and> getEfetivoPlanejadoAjustado \<lparr>escala = Val (jsLit ''12x36''), efetivo_planejado = Val 2\<rparr> = Inr 4
   \<and> getEfetivoPlanejadoAjustado \<lparr>escala = Val (jsLit ''12x36''), efetivo_planejado = Val 6\<rparr> = Inr 6"
proof (intro conjI impI)
  assume "isEscala12x36 (escala posto) = Inr True"
  then show "getEfetivoPlanejadoAjustado posto =
        Inr (max (case efetivo_planejado posto of
                    Val n \<Rightarrow> if 0 < n then n else 1
                  | Undefined \<Rightarrow> 1
                  | Null \<Rightarrow> 1) 4)"
    by (simp add: getEfetivoPlanejadoAjustado_Inr baseEfetivo_cases)
next
  show "getEfetivoPlanejadoAjustado \<lparr>escala = Val (jsLit ''12x36''), efetivo_planejado = Val 2\<rparr> = Inr 4"
    by (simp add: module_evaluation)
next
  show "getEfetivoPlanejadoAjustado \<lparr>escala = Val (jsLit ''12x36''), efetivo_planejado = Val 6\<rparr> = Inr 6"
    by (simp add: module_evaluation)
qed

theorem getEfetivoPlanejadoAjustado_12x36_floor_witness:
  "isEscala12x36 (escala \<lparr>escala = Val (jsLit '' 12X36 ''), efetivo_planejado = Val 7\<rparr>) = Inr True
   \<and> getEfetivoPlanejadoAjustado \<lparr>escala = Val (jsLit '' 12X36 ''), efetivo_planejado = Val 7\<rparr> = Inr 7"
proof -
  have h: "isEscala12x36 (escala \<lparr>escala = Val (jsLit '' 12X36 ''), efetivo_planejado = Val 7\<rparr>) = Inr True"
    by (simp add: module_evaluation)
  from getEfetivoPlanejadoAjustado_12x36_floor
         [of "\<lparr>escala = Val (jsLit '' 12X36 ''), efetivo_planejado = Val 7\<rparr>"] h
  show ?thesis by simp
qed

text \<open>
  C2. For every post whose planned head count is absent (\<open>undefined\<close> or \<open>null\<close>), zero
  or negative, \<open>getEfetivoPlanejadoAjustado\<close> takes 1 as the baseline; when the shift
  type is moreover not a 12x36 rotation, it returns exactly 1.
\<close>

theorem getEfetivoPlanejadoAjustado_baseline_default:
  "efetivo_planejado posto = Undefined \<or> efetivo_planejado posto = Null
     \<or> (\<exists>n. efetivo_planejado posto = Val n \<and> n \<le> 0) \<Longrightarrow>
   baseEfetivo posto = 1
   \<and> (isEscala12x36 (escala posto) = Inr False \<longrightarrow> getEfetivoPlanejadoAjustado posto = Inr 1)"
  by (auto simp: getEfetivoPlanejadoAjustado_Inr baseEfetivo_cases)

theorem getEfetivoPlanejadoAjustado_baseline_default_witness:
  "(\<exists>n. efetivo_planejado \<lparr>escala = Val (jsLit ''diarista''), efetivo_planejado = Val (- 3)\<rparr> = Val n \<and> n \<le> 0)
   \<and> isEscala12x36 (escala \<lparr>escala = Val (jsLit ''diarista''), efetivo_planejado = Val (- 3)\<rparr>) = Inr False
   \<and> baseEfetivo \<lparr>escala = Val (jsLit ''diarista''), efetivo_planejado = Val (- 3)\<rparr> = 1
   \<and> getEfetivoPlanejadoAjustado \<lparr>escala = Val (jsLit ''diarista''), efetivo_planejado = Val (- 3)\<rparr> = Inr 1"
proof -
  have h1: "\<exists>n. efetivo_planejado \<lparr>escala = Val (jsLit ''diarista''), efetivo_planejado = Val (- 3)\<rparr> = Val n \<and> n \<le> 0"
    by simp
  have h2: "isEscala12x36 (escala \<lparr>escala = Val (jsLit ''diarista''), efetivo_planejado = Val (- 3)\<rparr>) = Inr False"
    by (simp add: module_evaluation)
  from h1 have "efetivo_planejado \<lparr>escala = Val (jsLit ''diarista''), efetivo_planejado = Val (- 3)\<rparr> = Undefined
     \<or> efetivo_planejado \<lparr>escala = Val (jsLit ''diarista''), efetivo_planejado = Val (- 3)\<rparr> = Null
     \<or> (\<exists>n. efetivo_planejado \<lparr>escala = Val (jsLit ''diarista''), efetivo_planejado = Val (- 3)\<rparr> = Val n \<and> n \<le> 0)"
    by blast
  from getEfetivoPlanejadoAjustado_baseline_default [OF this] h1 h2
  show ?thesis by blast
qed

text \<open>
  C3. For every optional shift-type string, \<open>isEscala12x36\<close> returns true exactly when
  the string, trimmed of surrounding white space and case-folded, is the literal
  \<open>"12x36"\<close>: that is, when it is \<open>12x36\<close> or \<open>12X36\<close> between two runs of white
  space, of any code units that \<open>trim\<close> strips. For absent, empty and all other strings
  it returns false; \<open>" 12X36 "\<close> gives true, \<open>"12x37"\<close> gives false, and an absent
  value gives false. A byte order mark \<open>U+FEFF\<close> before the label is white space too.
\<close>

theorem isEscala12x36_trim_casefold:
  "isEscala12x36 shiftType = Inr (isTwelveBySixThirtySix_spec shiftType)
   \<and> isEscala12x36 (Val s) =
       Inr (\<exists>pre core post. s = pre @ core @ post \<and> list_all isWhiteSpace pre
              \<and> list_all isWhiteSpace post \<and> (core = jsLit ''12x36'' \<or> core = jsLit ''12X36''))
   \<and> isEscala12x36 (Val (jsLit '' 12X36 '')) = Inr True
   \<and> isEscala12x36 (Val (jsLit ''12x37'')) = Inr False
   \<and> isEscala12x36 (Val (jsLit '''')) = Inr False
   \<and> isEscala12x36 Undefined = Inr False
   \<and> isEscala12x36 Null = Inr False
   \<and> isEscala12x36 (Val (0xFEFF # jsLit ''12x36'')) = Inr True"
proof (intro conjI)
  show "isEscala12x36 shiftType = Inr (isTwelveBySixThirtySix_spec shiftType)"
    by (simp add: isEscala12x36_Inr isTwelveBySixThirtySix_spec_def)
  show "isEscala12x36 (Val s) =
       Inr (\<exists>pre core post. s = pre @ core @ post \<and> list_all isWhiteSpace pre
              \<and> list_all isWhiteSpace post \<and> (core = jsLit ''12x36'' \<or> core = jsLit ''12X36''))"
    by (rule isEscala12x36_shape)
  show "isEscala12x36 (Val (jsLit '' 12X36 '')) = Inr True" by (simp add: check_evaluation)
  show "isEscala12x36 (Val (jsLit ''12x37'')) = Inr False" by (simp add: check_evaluation)
  show "isEscala12x36 (Val (jsLit '''')) = Inr False" by (simp add: check_evaluation)
  show "isEscala12x36 Undefined = Inr False" by (simp add: isEscala12x36_def truthyString_def)
  show "isEscala12x36 Null = Inr False" by (simp add: isEscala12x36_def truthyString_def)
  show "isEscala12x36 (Val (0xFEFF # jsLit ''12x36'')) = Inr True"
    by (simp add: check_evaluation)
qed

text \<open>
  C4. For every count of active collaborators and every post, \<open>getCoberturaParaPosto\<close>
  returns \<open>efetivoConsiderado = min colaboradoresAtivos efetivoNecessario\<close>, where
  \<open>efetivoNecessario\<close> is what \<open>getEfetivoPlanejadoAjustado\<close> returns for the post; so
  the considered head count exceeds neither the required one nor the active count. (This
  holds for every integer count, negative ones included.)
\<close>

theorem getCoberturaParaPosto_considerado_min:
  "\<exists>necessario c.
      getEfetivoPlanejadoAjustado posto = Inr necessario
    \<and> getCoberturaParaPosto colaboradoresAtivos posto = Inr c
    \<and> efetivoNecessario c = necessario
    \<and> efetivoConsiderado c = min colaboradoresAtivos necessario
    \<and> efetivoConsiderado c \<le> efetivoNecessario c
    \<and> efetivoConsiderado c \<le> colaboradoresAtivos"
proof -
  obtain necessario where n: "getEfetivoPlanejadoAjustado posto = Inr necessario"
    by (simp add: getEfetivoPlanejadoAjustado_Inr)
  show ?thesis
    using n getCoberturaParaPosto_Inr [OF n, of colaboradoresAtivos] by simp
qed

text \<open>
  C5. For every count of active collaborators and every post, the flag \<open>estaCoberto\<close>
  returned by \<open>getCoberturaParaPosto\<close> is true exactly when the count is at least the
  required head count that \<open>getEfetivoPlanejadoAjustado\<close> returns for the post.
\<close>

theorem getCoberturaParaPosto_estaCoberto_iff:
  "\<exists>necessario c.
      getEfetivoPlanejadoAjustado posto = Inr necessario
    \<and> getCoberturaParaPosto colaboradoresAtivos posto = Inr c
    \<and> (estaCoberto c \<longleftrightarrow> colaboradoresAtivos \<ge> necessario)"
proof -
  obtain necessario where n: "getEfetivoPlanejadoAjustado posto = Inr necessario"
    by (simp add: getEfetivoPlanejadoAjustado_Inr)
  show ?thesis
    using n getCoberturaParaPosto_Inr [OF n, of colaboradoresAtivos] by simp
qed

text \<open>
  C6. For every post, with an integer planned head count when one is present, the value
  \<open>getEfetivoPlanejadoAjustado\<close> returns is at least 1, and at least 4 whenever the shift
  type is a 12x36 rotation.
\<close>

theorem getEfetivoPlanejadoAjustado_lower_bounds:
  "\<exists>k. getEfetivoPlanejadoAjustado posto = Inr k
      \<and> 1 \<le> k
      \<and> (isEscala12x36 (escala posto) = Inr True \<longrightarrow> 4 \<le> k)"
  using baseEfetivo_ge_1 [of posto]
  by (auto simp: getEfetivoPlanejadoAjustado_Inr)

theorem getEfetivoPlanejadoAjustado_lower_bounds_witness:
  "isEscala12x36 (escala \<lparr>escala = Val (jsLit ''12X36''), efetivo_planejado = Null\<rparr>) = Inr True
   \<and> (\<exists>k. getEfetivoPlanejadoAjustado \<lparr>escala = Val (jsLit ''12X36''), efetivo_planejado = Null\<rparr> = Inr k
          \<and> 1 \<le> k \<and> 4 \<le> k)"
proof -
  have h: "isEscala12x36 (escala \<lparr>escala = Val (jsLit ''12X36''), efetivo_planejado = Null\<rparr>) = Inr True"
    by (simp add: module_evaluation)
  from getEfetivoPlanejadoAjustado_lower_bounds
         [of "\<lparr>escala = Val (jsLit ''12X36''), efetivo_planejado = Null\<rparr>"] h
  show ?thesis by blast
qed

text \<open>
  C7. The three end-to-end scenarios: a 12x36 post planned for 1 with 3 active
  collaborators needs 4, counts 3 and is not covered; a \<open>diarista\<close> post planned for 2
  with 2 active collaborators needs 2, counts 2 and is covered; a post with \<open>null\<close>
  shift type and \<open>null\<close> planned head count with no active collaborator needs 1, counts
  0 and is not covered.
\<close>

theorem getCoberturaParaPosto_scenarios:
  "getCoberturaParaPosto 3 \<lparr>escala = Val (jsLit ''12x36''), efetivo_planejado = Val 1\<rparr>
     = Inr \<lparr>efetivoNecessario = 4, efetivoConsiderado = 3, estaCoberto = False\<rparr>
   \<and> getCoberturaParaPosto 2 \<lparr>escala = Val (jsLit ''diarista''), efetivo_planejado = Val 2\<rparr>
     = Inr \<lparr>efetivoNecessario = 2, efetivoConsiderado = 2, estaCoberto = True\<rparr>
   \<and> getCoberturaParaPosto 0 \<lparr>escala = Null, efetivo_planejado = Null\<rparr>
     = Inr \<lparr>efetivoNecessario = 1, efetivoConsiderado = 0, estaCoberto = False\<rparr>"
proof (intro conjI)
  show "getCoberturaParaPosto 3 \<lparr>escala = Val (jsLit ''12x36''), efetivo_planejado = Val 1\<rparr>
     = Inr \<lparr>efetivoNecessario = 4, efetivoConsiderado = 3, estaCoberto = False\<rparr>"
    by (simp add: module_evaluation)
  show "getCoberturaParaPosto 2 \<lparr>escala = Val (jsLit ''diarista''), efetivo_planejado = Val 2\<rparr>
     = Inr \<lparr>efetivoNecessario = 2, efetivoConsiderado = 2, estaCoberto = True\<rparr>"
    by (simp add: module_evaluation)
  show "getCoberturaParaPosto 0 \<lparr>escala = Null, efetivo_planejado = Null\<rparr>
     = Inr \<lparr>efetivoNecessario = 1, efetivoConsiderado = 0, estaCoberto = False\<rparr>"
    by (simp add: module_evaluation)
qed

text \<open>
  C8. The three operations are total: for every input of the declared types, absent,
  empty, zero and negative fields included, each returns a value and never raises. In
  particular the guard \<open>!escala\<close> keeps \<open>trim\<close> from being called on \<open>undefined\<close> or
  \<open>null\<close>.
\<close>

theorem operations_total:
  "(\<exists>b. isEscala12x36 e = Inr b)
   \<and> (\<exists>k. getEfetivoPlanejadoAjustado posto = Inr k)
   \<and> (\<exists>c. getCoberturaParaPosto colaboradoresAtivos posto = Inr c)"
proof (intro conjI)
  show "\<exists>b. isEscala12x36 e = Inr b"
    by (simp add: isEscala12x36_Inr)
  obtain k where k: "getEfetivoPlanejadoAjustado posto = Inr k"
    by (simp add: getEfetivoPlanejadoAjustado_Inr)
  then show "\<exists>k. getEfetivoPlanejadoAjustado posto = Inr k" ..
  from getCoberturaParaPosto_Inr [OF k, of colaboradoresAtivos]
  show "\<exists>c. getCoberturaParaPosto colaboradoresAtivos posto = Inr c" ..
qed


text \<open>
  C10. For every count of active collaborators and every post, the record returned by
  \<open>getCoberturaParaPosto\<close> has \<open>estaCoberto\<close> true exactly when \<open>efetivoConsiderado\<close>
  equals \<open>efetivoNecessario\<close>; and whenever \<open>estaCoberto\<close> is false,
  \<open>efetivoConsiderado\<close> is the active count itself.
\<close>

theorem getCoberturaParaPosto_coberto_iff_considerado:
  "\<exists>c. getCoberturaParaPosto colaboradoresAtivos posto = Inr c
      \<and> (estaCoberto c \<longleftrightarrow> efetivoConsiderado c = efetivoNecessario c)
      \<and> (\<not> estaCoberto c \<longrightarrow> efetivoConsiderado c = colaboradoresAtivos)"
proof -
  obtain necessario where n: "getEfetivoPlanejadoAjustado posto = Inr necessario"
    by (simp add: getEfetivoPlanejadoAjustado_Inr)
  show ?thesis
    using getCoberturaParaPosto_Inr [OF n, of colaboradoresAtivos] by auto
qed

theorem getCoberturaParaPosto_coberto_iff_considerado_witness:
  "\<exists>c. getCoberturaParaPosto 3 \<lparr>escala = Val (jsLit ''12x36''), efetivo_planejado = Val 1\<rparr> = Inr c
      \<and> \<not> estaCoberto c \<and> efetivoConsiderado c = 3 \<and> efetivoConsiderado c \<noteq> efetivoNecessario c"
proof -
  have v: "getCoberturaParaPosto 3 \<lparr>escala = Val (jsLit ''12x36''), efetivo_planejado = Val 1\<rparr>
     = Inr \<lparr>efetivoNecessario = 4, efetivoConsiderado = 3, estaCoberto = False\<rparr>"
    by (simp add: module_evaluation)
  from getCoberturaParaPosto_coberto_iff_considerado
         [of 3 "\<lparr>escala = Val (jsLit ''12x36''), efetivo_planejado = Val 1\<rparr>"]
  show ?thesis unfolding v by auto
qed

subsection \<open>Calls over the object store\<close>

lemma run_readEscala: "run_state (readEscala posto) h = (escala (h posto), h)"
  by (simp add: readEscala_def)

lemma run_readEfetivoPlanejado:
  "run_state (readEfetivoPlanejado posto) h = (efetivo_planejado (h posto), h)"
  by (simp add: readEfetivoPlanejado_def)

lemma run_isEscala12x36_st: "run_state (isEscala12x36_st e) h = (isEscala12x36 e, h)"
  by (simp add: isEscala12x36_st_def isEscala12x36_def)

lemma run_getEfetivoPlanejadoAjustado_st:
  "run_state (getEfetivoPlanejadoAjustado_st posto) h = (getEfetivoPlanejadoAjustado (h posto), h)"
  by (simp add: getEfetivoPlanejadoAjustado_st_def getEfetivoPlanejadoAjustado_def
      run_readEscala run_readEfetivoPlanejado run_isEscala12x36_st baseEfetivo_def Let_def
      split: sum.split nullable.split)

lemma run_getCoberturaParaPosto_st:
  "run_state (getCoberturaParaPosto_st colaboradoresAtivos posto) h =
     (getCoberturaParaPosto colaboradoresAtivos (h posto), h)"
  by (simp add: getCoberturaParaPosto_st_def getCoberturaParaPosto_def
      run_getEfetivoPlanejadoAjustado_st)

text \<open>
  C9. Every call of the three operations is a pure, deterministic function of its
  arguments: the call leaves the store as it found it, so the post passed in is not
  changed; its result is determined by the values of its arguments alone (the count and
  the contents of the post), so two calls with equal arguments return equal results,
  whatever else the store holds; and a second call after a first returns the same
  result, nothing being carried from one to the next.
\<close>

theorem operations_pure:
  "run_state (isEscala12x36_st e) h = (isEscala12x36 e, h)
   \<and> run_state (getEfetivoPlanejadoAjustado_st posto) h
       = (getEfetivoPlanejadoAjustado (h posto), h)
   \<and> run_state (getCoberturaParaPosto_st colaboradoresAtivos posto) h
       = (getCoberturaParaPosto colaboradoresAtivos (h posto), h)
   \<and> (h posto = h' posto' \<longrightarrow>
        fst (run_state (getCoberturaParaPosto_st colaboradoresAtivos posto) h)
          = fst (run_state (getCoberturaParaPosto_st colaboradoresAtivos posto') h')
      \<and> fst (run_state (getEfetivoPlanejadoAjustado_st posto) h)
          = fst (run_state (getEfetivoPlanejadoAjustado_st posto') h'))
   \<and> run_state (do { a \<leftarrow> getCoberturaParaPosto_st colaboradoresAtivos posto;
                      b \<leftarrow> getCoberturaParaPosto_st colaboradoresAtivos posto;
                      State_Monad.return (a = b) }) h = (True, h)"
  by (simp add: run_isEscala12x36_st run_getEfetivoPlanejadoAjustado_st
      run_getCoberturaParaPosto_st)

theorem operations_pure_witness:
  "((\<lambda>_. \<lparr>escala = Val (jsLit ''diarista''), efetivo_planejado = Val 9\<rparr>)
       (5 := \<lparr>escala = Val (jsLit ''12x36''), efetivo_planejado = Val 1\<rparr>)) (5 :: ref)
     = ((\<lambda>_. \<lparr>escala = Null, efetivo_planejado = Undefined\<rparr>)
       (0 := \<lparr>escala = Val (jsLit ''12x36''), efetivo_planejado = Val 1\<rparr>)) (0 :: ref)
   \<and> fst (run_state (getCoberturaParaPosto_st 3 5)
            ((\<lambda>_. \<lparr>escala = Val (jsLit ''diarista''), efetivo_planejado = Val 9\<rparr>)
               (5 := \<lparr>escala = Val (jsLit ''12x36''), efetivo_planejado = Val 1\<rparr>)))
     = fst (run_state (getCoberturaParaPosto_st 3 0)
            ((\<lambda>_. \<lparr>escala = Null, efetivo_planejado = Undefined\<rparr>)
               (0 := \<lparr>escala = Val (jsLit ''12x36''), efetivo_planejado = Val 1\<rparr>)))"
proof -
  let ?h = "(\<lambda>_. \<lparr>escala = Val (jsLit ''diarista''), efetivo_planejado = Val 9\<rparr>)
              ((5 :: ref) := \<lparr>escala = Val (jsLit ''12x36''), efetivo_planejado = Val 1\<rparr>)"
  let ?h' = "(\<lambda>_. \<lparr>escala = Null, efetivo_planejado = Undefined\<rparr>)
              ((0 :: ref) := \<lparr>escala = Val (jsLit ''12x36''), efetivo_planejado = Val 1\<rparr>)"
  have eq: "?h 5 = ?h' 0"
    by simp
  from operations_pure [of _ ?h 5 3 ?h' 0] eq
  show ?thesis by blast
qed


end
